theory Spec2Isabelle
  imports Main "HOL-Library.Word" "HOL-Library.AList" "HOL-Library.Sublist"
begin

section \<open>Encrypted persistence of the crypto session (src/lib/crypto-store.ts)\<close>

text \<open>
  A \<^verbatim>\<open>Uint8Array\<close> is a list of bytes. The module talks to three collaborators that
  are not part of it: libsodium (\<^verbatim>\<open>getSodium()\<close>), the JavaScript runtime
  (\<^verbatim>\<open>JSON\<close>, \<^verbatim>\<open>TextEncoder\<close>, \<^verbatim>\<open>TextDecoder\<close>) and the backup module
  (\<^verbatim>\<open>./backup.js\<close>). Each is a record of functions that the embedded operations
  take as a parameter. Decryption, \<^verbatim>\<open>JSON.parse\<close> and the restore are fallible
  by contract, and a throw of theirs is a value here (\<open>None\<close>, \<open>RestoreThrew\<close>). The
  other calls are taken on the arguments on which they return: \<^verbatim>\<open>getSodium()\<close>
  before the library is initialised, \<^verbatim>\<open>crypto_generichash\<close> with a key longer than
  the library accepts and \<^verbatim>\<open>JSON.stringify\<close> of a value it cannot serialise throw
  instead. In \<^verbatim>\<open>persistCryptoState\<close> such a throw comes before the storage is
  touched and rejects the returned promise; in \<^verbatim>\<open>loadCryptoState\<close> it comes inside
  the \<^verbatim>\<open>try\<close> and gives \<^verbatim>\<open>false\<close>. Those runs are not runs of the functions
  below, whose theorems speak of identity keys and payloads that the collaborators accept.
\<close>

type_synonym bytes = "8 word list"

record sodium =
  crypto_secretbox_KEYBYTES :: nat
  crypto_secretbox_NONCEBYTES :: nat
  crypto_generichash :: "nat \<Rightarrow> bytes \<Rightarrow> bytes \<Rightarrow> bytes"
  crypto_secretbox_easy :: "bytes \<Rightarrow> bytes \<Rightarrow> bytes \<Rightarrow> bytes"
  crypto_secretbox_open_easy :: "bytes \<Rightarrow> bytes \<Rightarrow> bytes \<Rightarrow> bytes option"

record 'p runtime =
  JSON_stringify :: "'p \<Rightarrow> string"
  JSON_parse :: "string \<Rightarrow> 'p option"
  TextEncoder_encode :: "string \<Rightarrow> bytes"
  TextDecoder_decode :: "bytes \<Rightarrow> string"

text \<open>
  \<^verbatim>\<open>restoreCryptoFromPayload(payload)\<close> mutates the in-memory session state and may
  throw on a payload of the wrong shape; either way it leaves some session state behind.
\<close>

datatype 's restored = Restored 's | RestoreThrew 's

record ('s, 'p) backup =
  buildBackupPayload :: "'s \<Rightarrow> 'p"
  restoreCryptoFromPayload :: "'p \<Rightarrow> 's \<Rightarrow> 's restored"

text \<open>
  The object store \<^verbatim>\<open>"sessions"\<close> of the database \<^verbatim>\<open>"haven-crypto"\<close> is
  keyed by \<^verbatim>\<open>userId\<close> (its \<^verbatim>\<open>keyPath\<close>) and holds the objects that
  \<^verbatim>\<open>persistCryptoState\<close> puts there.
\<close>

record stored_record =
  userId :: string
  encrypted :: bytes
  nonce :: bytes
  updatedAt :: string

text \<open>
  The state that the three exported functions read and write: the module-level
  \<^verbatim>\<open>dbPromise\<close> (\<open>True\<close> when it holds a promise that has fulfilled with a
  connection), the object store, and the in-memory crypto session state that the backup
  module serialises and restores.
\<close>

record 's world =
  dbPromise :: bool
  sessions :: "string \<rightharpoonup> stored_record"
  cryptoState :: 's

text \<open>
  How a write that does not succeed fails. A failed request fires an error event that
  bubbles to the transaction, whose \<^verbatim>\<open>onerror\<close> handler then runs; a transaction that
  fails while committing (quota, disk) or is aborted fires \<^verbatim>\<open>abort\<close> only, for which
  \<^verbatim>\<open>persistCryptoState\<close> sets no handler.
\<close>

datatype write_failure = ErrorEvent | AbortOnly

text \<open>
  What the environment decides during one call: whether the promise of \<^verbatim>\<open>openDb\<close>
  fulfils when no connection is cached and, if it does not, whether
  \<^verbatim>\<open>indexedDB.open\<close> threw or fired \<^verbatim>\<open>onerror\<close>; whether
  \<^verbatim>\<open>db.transaction(...)\<close> returns or throws; whether the request and its transaction
  succeed and, if a write does not, how it fails; the bytes that
  \<^verbatim>\<open>sodium.randombytes_buf\<close> draws and the clock.
\<close>

record environment =
  open_succeeds :: bool
  open_throws :: bool
  transaction_opens :: bool
  request_succeeds :: bool
  write_failure :: write_failure
  randombytes_buf :: "nat \<Rightarrow> bytes"
  toISOString :: string

text \<open>
  What a promise rejects with: \<^verbatim>\<open>request.error\<close> of the failed open, the exception
  that \<^verbatim>\<open>indexedDB.open\<close> or \<^verbatim>\<open>db.transaction\<close> threw, or the value of
  \<^verbatim>\<open>tx.error\<close> at the time the \<^verbatim>\<open>onerror\<close> handler runs, which is \<^verbatim>\<open>null\<close>
  as long as the transaction has not finished. A promise that nothing settles stays
  \<open>Pending\<close>.
\<close>

datatype error = OpenError | OpenThrew | TransactionThrew | TxErrorNull

datatype 'a promise = Resolved 'a | Rejected error | Pending

text \<open>
  \<^verbatim>\<open>openDb\<close>: a cached connection is returned as it is; otherwise the database is
  opened. On success the promise stays cached. When \<^verbatim>\<open>request.onerror\<close> fires,
  \<^verbatim>\<open>dbPromise\<close> is reset to \<^verbatim>\<open>null\<close> and the promise rejects. When
  \<^verbatim>\<open>indexedDB.open\<close> itself throws, the executor's exception rejects the promise,
  which stays in \<^verbatim>\<open>dbPromise\<close>, so that every later call returns the same rejected
  promise: in the model that is a later call whose environment does not let the open
  succeed either. The model does not force the later environment to do so; what is
  proved for every environment holds for those runs as well.
\<close>

definition openDb :: "environment \<Rightarrow> 's world \<Rightarrow> (error + unit) \<times> 's world" where
  "openDb env w =
     (if dbPromise w then (Inr (), w)
      else if open_succeeds env then (Inr (), w\<lparr>dbPromise := True\<rparr>)
      else if open_throws env then (Inl OpenThrew, w\<lparr>dbPromise := False\<rparr>)
      else (Inl OpenError, w\<lparr>dbPromise := False\<rparr>))"

definition KEY_CONTEXT :: "'p runtime \<Rightarrow> bytes" where
  "KEY_CONTEXT rt = TextEncoder_encode rt ''haven-local-crypto-store''"

definition deriveStorageKey :: "sodium \<Rightarrow> 'p runtime \<Rightarrow> bytes \<Rightarrow> bytes" where
  "deriveStorageKey sod rt identityPrivateKey =
     crypto_generichash sod (crypto_secretbox_KEYBYTES sod) (KEY_CONTEXT rt) identityPrivateKey"

text \<open>
  \<^verbatim>\<open>persistCryptoState\<close>: the payload is built, serialised and encrypted first; then
  the database is opened (a rejection of \<^verbatim>\<open>openDb\<close> escapes through the
  \<^verbatim>\<open>await\<close>), and inside the promise executor the transaction is created (a throw
  there rejects the promise), the record is put, \<^verbatim>\<open>tx.oncomplete\<close> resolves and
  \<^verbatim>\<open>tx.onerror\<close> rejects with \<^verbatim>\<open>tx.error\<close>. No \<^verbatim>\<open>tx.onabort\<close> is set: a
  transaction that aborts without an error event settles nothing and the promise stays
  pending. A transaction that does not complete writes nothing.
\<close>

definition persistCryptoState ::
  "sodium \<Rightarrow> 'p runtime \<Rightarrow> ('s, 'p) backup \<Rightarrow> environment \<Rightarrow> string \<Rightarrow> bytes \<Rightarrow> 's world
     \<Rightarrow> unit promise \<times> 's world" where
  "persistCryptoState sod rt bk env uid identityPrivateKey w =
     (let payload = buildBackupPayload bk (cryptoState w);
          plaintext = TextEncoder_encode rt (JSON_stringify rt payload);
          key = deriveStorageKey sod rt identityPrivateKey;
          n = randombytes_buf env (crypto_secretbox_NONCEBYTES sod);
          enc = crypto_secretbox_easy sod plaintext n key
      in case openDb env w of
           (Inl e, w') \<Rightarrow> (Rejected e, w')
         | (Inr _, w') \<Rightarrow>
             if \<not> transaction_opens env then (Rejected TransactionThrew, w')
             else if request_succeeds env then
               (Resolved (),
                w'\<lparr>sessions := (sessions w')(uid \<mapsto>
                      \<lparr>userId = uid, encrypted = enc, nonce = n,
                       updatedAt = toISOString env\<rparr>)\<rparr>)
             else
               (case write_failure env of
                  ErrorEvent \<Rightarrow> (Rejected TxErrorNull, w')
                | AbortOnly \<Rightarrow> (Pending, w')))"

text \<open>
  \<^verbatim>\<open>loadCryptoState\<close>: \<^verbatim>\<open>await openDb()\<close> and the promise that reads the record
  stand before the \<^verbatim>\<open>try\<close>; \<^verbatim>\<open>req.onerror\<close> resolves that promise with
  \<^verbatim>\<open>null\<close>, as a missing record does. Decryption, \<^verbatim>\<open>JSON.parse\<close> and
  \<^verbatim>\<open>restoreCryptoFromPayload\<close> run inside the \<^verbatim>\<open>try\<close>, whose \<^verbatim>\<open>catch\<close>
  returns \<^verbatim>\<open>false\<close>.
\<close>

definition loadCryptoState ::
  "sodium \<Rightarrow> 'p runtime \<Rightarrow> ('s, 'p) backup \<Rightarrow> environment \<Rightarrow> string \<Rightarrow> bytes \<Rightarrow> 's world
     \<Rightarrow> bool promise \<times> 's world" where
  "loadCryptoState sod rt bk env uid identityPrivateKey w =
     (case openDb env w of
        (Inl e, w') \<Rightarrow> (Rejected e, w')
      | (Inr _, w') \<Rightarrow>
          if \<not> transaction_opens env then (Rejected TransactionThrew, w')
          else
            (case (if request_succeeds env then sessions w' uid else None) of
               None \<Rightarrow> (Resolved False, w')
             | Some r \<Rightarrow>
                 (case crypto_secretbox_open_easy sod (encrypted r) (nonce r)
                         (deriveStorageKey sod rt identityPrivateKey) of
                    None \<Rightarrow> (Resolved False, w')
                  | Some plaintext \<Rightarrow>
                      (case JSON_parse rt (TextDecoder_decode rt plaintext) of
                         None \<Rightarrow> (Resolved False, w')
                       | Some payload \<Rightarrow>
                           (case restoreCryptoFromPayload bk payload (cryptoState w') of
                              Restored s \<Rightarrow> (Resolved True, w'\<lparr>cryptoState := s\<rparr>)
                            | RestoreThrew s \<Rightarrow> (Resolved False, w'\<lparr>cryptoState := s\<rparr>))))))"

text \<open>
  \<^verbatim>\<open>clearCryptoStore(userId?)\<close>: everything is inside the \<^verbatim>\<open>try\<close>, and the
  function never waits for the request. \<^verbatim>\<open>if (userId)\<close> is JavaScript truthiness:
  \<^verbatim>\<open>undefined\<close> and the empty string both take the \<^verbatim>\<open>else\<close> branch.
\<close>

definition truthy :: "string option \<Rightarrow> bool" where
  "truthy uid = (case uid of None \<Rightarrow> False | Some u \<Rightarrow> u \<noteq> [])"

definition clearCryptoStore :: "environment \<Rightarrow> string option \<Rightarrow> 's world \<Rightarrow> unit promise \<times> 's world" where
  "clearCryptoStore env uid w =
     (case openDb env w of
        (Inl e, w') \<Rightarrow> (Resolved (), w')
      | (Inr _, w') \<Rightarrow>
          if \<not> transaction_opens env then (Resolved (), w')
          else if \<not> request_succeeds env then (Resolved (), w')
          else
            (case uid of
               Some u \<Rightarrow>
                 if truthy uid then (Resolved (), w'\<lparr>sessions := (sessions w')(u := None)\<rparr>)
                 else (Resolved (), w'\<lparr>sessions := Map.empty\<rparr>)
             | None \<Rightarrow> (Resolved (), w'\<lparr>sessions := Map.empty\<rparr>)))"

text \<open>
  No byte field of a stored record contains the given key as a run of consecutive
  bytes.
\<close>

abbreviation key_absent :: "bytes \<Rightarrow> (string \<rightharpoonup> stored_record) \<Rightarrow> bool" where
  "key_absent k store \<equiv>
     (\<forall>u r. store u = Some r \<longrightarrow> \<not> sublist k (encrypted r) \<and> \<not> sublist k (nonce r))"

section \<open>Sender keys and their self-copies (lib/crypto.ts)\<close>

text \<open>
  The module \<^verbatim>\<open>crypto.ts\<close> is known through its integration tests and through the
  specification of the sender-key store and of the distribution coordinator. Its
  operations are modelled from those. A \<^verbatim>\<open>Uint8Array\<close> is an object: the claims
  about independent buffers need the aliasing, so byte buffers live in a heap (a list of
  buffers, a reference being an index) and a sender key holds references.
\<close>

type_synonym ref = nat

text \<open>
  Modelled from the spec: the data model's SenderKey (distribution id, chain key, chain
  index) and ReceivedSenderKeyEntry (the sending user and a key of its own), which
  \<^verbatim>\<open>crypto.ts\<close> declares; the two byte fields are references into the heap.
\<close>

record senderKey =
  distributionId :: ref
  chainKey :: ref
  chainIndex :: nat

record receivedEntry =
  fromUserId :: string
  key :: senderKey

text \<open>
  Modelled from the spec: the in-memory state of \<^verbatim>\<open>crypto.ts\<close> that the tests read
  through \<^verbatim>\<open>exportCryptoState()\<close>. The heap of buffers, \<^verbatim>\<open>mySenderKeys\<close> (channel to own key),
  \<^verbatim>\<open>receivedSenderKeys\<close> (keyed by channel and the bytes of the distribution id, in
  insertion order as a JavaScript \<^verbatim>\<open>Map\<close> keeps it), \<^verbatim>\<open>distributedChannels\<close>, and
  the number of keys the primitive provider has generated so far.
\<close>

record session =
  heap :: "bytes list"
  mySenderKeys :: "(string \<times> senderKey) list"
  receivedSenderKeys :: "((string \<times> bytes) \<times> receivedEntry) list"
  distributedChannels :: "string list"
  callCount :: nat

datatype failure = GenerationFailure

text \<open>
  Modelled from the spec: the buffers that the spec calls independent, fresh and distinct
  objects, which \<^verbatim>\<open>crypto.ts\<close> allocates and writes.
  Reading a buffer, allocating one (\<^verbatim>\<open>new Uint8Array(bytes)\<close> copies its argument into
  a fresh object) and writing one element (\<^verbatim>\<open>buf[i] = v\<close>; a typed array ignores a
  write past its end). JavaScript has no dangling reference; \<open>deref\<close> of an index that was
  never allocated is the empty buffer.
\<close>

definition deref :: "bytes list \<Rightarrow> ref \<Rightarrow> bytes" where
  "deref h r = (if r < length h then h ! r else [])"

definition new_Uint8Array :: "bytes \<Rightarrow> bytes list \<Rightarrow> ref \<times> bytes list" where
  "new_Uint8Array b h = (length h, h @ [b])"

definition writeByte :: "ref \<Rightarrow> nat \<Rightarrow> 8 word \<Rightarrow> bytes list \<Rightarrow> bytes list" where
  "writeByte r i v h = (if r < length h then h[r := (h ! r)[i := v]] else h)"

text \<open>
  The key generator that the tests install for \<^verbatim>\<open>generateSenderKey\<close>
  (src/unnamed/part_003): it counts its calls, copies \<^verbatim>\<open>fakeDistId\<close>, stores the new
  count in element 0 (a \<^verbatim>\<open>Uint8Array\<close> element, so modulo 256) and returns it with a copy
  of \<^verbatim>\<open>fakeChainKey\<close> and chain index 0. The argument is the count before the call.
\<close>

definition fakeDistId :: bytes where
  "fakeDistId = [1, 2, 3, 4, 5, 6, 7, 8, 9, 10, 11, 12, 13, 14, 15, 16]"

definition fakeChainKey :: bytes where
  "fakeChainKey = replicate 32 0xab"

definition mock_generateSenderKey :: "nat \<Rightarrow> (bytes \<times> bytes) option" where
  "mock_generateSenderKey n = Some (fakeDistId[0 := of_nat (Suc n)], fakeChainKey)"

text \<open>
  Modelled from the spec: the Cryptographic Primitive Provider's \<^verbatim>\<open>generate()\<close>, which
  returns a distribution id, a chain key and chain index 0 in buffers of their own, or
  fails (\<open>GenerationFailure\<close>). The provider is a parameter: the bytes of its n-th key.
\<close>

definition generateSenderKey ::
  "(nat \<Rightarrow> (bytes \<times> bytes) option) \<Rightarrow> session \<Rightarrow> (senderKey \<times> session) option" where
  "generateSenderKey provider st =
     (case provider (callCount st) of
        None \<Rightarrow> None
      | Some (d, c) \<Rightarrow>
          (let (rd, h1) = new_Uint8Array d (heap st);
               (rc, h2) = new_Uint8Array c h1
           in Some (\<lparr>distributionId = rd, chainKey = rc, chainIndex = 0\<rparr>,
                    st\<lparr>heap := h2, callCount := Suc (callCount st)\<rparr>)))"

text \<open>
  Modelled from the spec: cloning a key's fields into fresh buffers (the deep clone of
  the sender-key store and of the coordinator's self-copy).
\<close>

definition cloneSenderKey :: "senderKey \<Rightarrow> session \<Rightarrow> senderKey \<times> session" where
  "cloneSenderKey k st =
     (let (rd, h1) = new_Uint8Array (deref (heap st) (distributionId k)) (heap st);
          (rc, h2) = new_Uint8Array (deref h1 (chainKey k)) h1
      in (\<lparr>distributionId = rd, chainKey = rc, chainIndex = chainIndex k\<rparr>, st\<lparr>heap := h2\<rparr>))"

text \<open>Modelled from the spec: \<^verbatim>\<open>getOwnKey(channel)\<close> of the sender-key store.\<close>

definition getOwnKey :: "session \<Rightarrow> string \<Rightarrow> senderKey option" where
  "getOwnKey st channel = map_of (mySenderKeys st) channel"

text \<open>Modelled from the spec: \<^verbatim>\<open>setOwnKey(channel, key)\<close> of the sender-key store.\<close>

definition setOwnKey :: "string \<Rightarrow> senderKey \<Rightarrow> session \<Rightarrow> session" where
  "setOwnKey channel k st = st\<lparr>mySenderKeys := AList.update channel k (mySenderKeys st)\<rparr>"

text \<open>Modelled from the spec: \<^verbatim>\<open>removeOwnKey(channel)\<close> of the sender-key store.\<close>

definition removeOwnKey :: "string \<Rightarrow> session \<Rightarrow> session" where
  "removeOwnKey channel st = st\<lparr>mySenderKeys := AList.delete channel (mySenderKeys st)\<rparr>"

text \<open>
  Modelled from the spec: \<^verbatim>\<open>addReceivedKey(channel, distributionId, fromUserId, key)\<close>,
  which inserts a deep clone and is a no-op if an entry exists for that exact pair of
  channel and distribution id.
\<close>

definition addReceivedKey :: "string \<Rightarrow> ref \<Rightarrow> string \<Rightarrow> senderKey \<Rightarrow> session \<Rightarrow> session" where
  "addReceivedKey channel d from k st =
     (let mapKey = (channel, deref (heap st) d)
      in case map_of (receivedSenderKeys st) mapKey of
           Some _ \<Rightarrow> st
         | None \<Rightarrow>
             (let (cl, st1) = cloneSenderKey k st
              in st1\<lparr>receivedSenderKeys :=
                       receivedSenderKeys st1 @ [(mapKey, \<lparr>fromUserId = from, key = cl\<rparr>)]\<rparr>))"

text \<open>Modelled from the spec: \<^verbatim>\<open>listReceivedKeys(channel)\<close> of the sender-key store.\<close>

definition listReceivedKeys :: "session \<Rightarrow> string \<Rightarrow> receivedEntry list" where
  "listReceivedKeys st channel =
     map snd (filter (\<lambda>(mapKey, e). fst mapKey = channel) (receivedSenderKeys st))"

text \<open>
  Modelled from the spec: \<^verbatim>\<open>clear()\<close> (\<^verbatim>\<open>clearCryptoState\<close> in the tests), which
  empties the three structures.
\<close>

definition clearCryptoState :: "session \<Rightarrow> session" where
  "clearCryptoState st =
     st\<lparr>mySenderKeys := [], receivedSenderKeys := [], distributedChannels := []\<rparr>"

text \<open>
  Modelled from the spec: the outcome of the network distribution. On success the
  channel is marked distributed; a failure is caught and leaves it unmarked.
\<close>

definition distribute :: "bool \<Rightarrow> string \<Rightarrow> session \<Rightarrow> session" where
  "distribute delivered channel st =
     (if delivered
      then st\<lparr>distributedChannels := List.insert channel (distributedChannels st)\<rparr>
      else st)"

text \<open>
  Modelled from the spec: \<^verbatim>\<open>ensureDistributed(channel)\<close>
  (\<^verbatim>\<open>ensureSenderKeyDistributed\<close> in the tests), steps 1 to 4 of the coordinator, for
  one call that runs to its end. \<open>user\<close> is the local user id of the auth store, if any;
  \<open>delivered\<close> says whether the distribution succeeds.
\<close>

definition ensureSenderKeyDistributed ::
  "(nat \<Rightarrow> (bytes \<times> bytes) option) \<Rightarrow> string option \<Rightarrow> bool \<Rightarrow> string \<Rightarrow> session
     \<Rightarrow> (failure + senderKey) \<times> session" where
  "ensureSenderKeyDistributed provider user delivered channel st =
     (case getOwnKey st channel of
        Some k \<Rightarrow>
          if channel \<in> set (distributedChannels st) then (Inr k, st)
          else (Inr k, distribute delivered channel st)
      | None \<Rightarrow>
          (case generateSenderKey provider st of
             None \<Rightarrow> (Inl GenerationFailure, st)
           | Some (k, st1) \<Rightarrow>
               (let st2 = setOwnKey channel k st1;
                    st3 = (case user of
                             None \<Rightarrow> st2
                           | Some u \<Rightarrow>
                               (let (cl, st') = cloneSenderKey k st2
                                in addReceivedKey channel (distributionId k) u cl st'))
                in (Inr k, distribute delivered channel st3))))"

text \<open>
  Modelled from the spec: \<^verbatim>\<open>invalidate(channel)\<close> (\<^verbatim>\<open>invalidateSenderKey\<close> in the
  tests), which removes the own key and the distributed flag and nothing else.
\<close>

definition invalidateSenderKey :: "string \<Rightarrow> session \<Rightarrow> session" where
  "invalidateSenderKey channel st =
     (removeOwnKey channel st)
       \<lparr>distributedChannels := removeAll channel (distributedChannels st)\<rparr>"

text \<open>
  The self-copies of a user on a channel: the received entries of the channel whose
  \<^verbatim>\<open>fromUserId\<close> is the user (the tests filter the entries of all channels by
  \<^verbatim>\<open>fromUserId\<close> in sessions that use one channel).
\<close>

definition selfCopies :: "string \<Rightarrow> string \<Rightarrow> session \<Rightarrow> receivedEntry list" where
  "selfCopies channel u st = filter (\<lambda>e. fromUserId e = u) (listReceivedKeys st channel)"

text \<open>The session of a test after \<^verbatim>\<open>beforeEach\<close>: everything empty, no key generated.\<close>

definition fresh :: session where
  "fresh = \<lparr>heap = [], mySenderKeys = [], receivedSenderKeys = [], distributedChannels = [],
            callCount = 0\<rparr>"

text \<open>
  The calls of the integration tests, on the fresh session, with the tests' generator,
  user \<^verbatim>\<open>"user-1"\<close> and a distribution that succeeds.
\<close>

definition first_call :: "(failure + senderKey) \<times> session" where
  "first_call =
     ensureSenderKeyDistributed mock_generateSenderKey (Some ''user-1'') True ''ch-1'' fresh"

definition second_call :: "(failure + senderKey) \<times> session" where
  "second_call =
     ensureSenderKeyDistributed mock_generateSenderKey (Some ''user-1'') True ''ch-1''
       (snd first_call)"

definition call_after_invalidate :: "(failure + senderKey) \<times> session" where
  "call_after_invalidate =
     ensureSenderKeyDistributed mock_generateSenderKey (Some ''user-1'') True ''ch-1''
       (invalidateSenderKey ''ch-1'' (snd first_call))"

definition call_without_user :: "(failure + senderKey) \<times> session" where
  "call_without_user =
     ensureSenderKeyDistributed mock_generateSenderKey None True ''ch-1'' fresh"

section \<open>A small instance of the collaborators\<close>

text \<open>
  A cipher that prepends key and nonce to the plaintext and checks both on opening (it
  refuses every other key of the same length, and its boxes show the key), a
  keyed hash that pads or cuts the key to the requested length, a runtime whose JSON
  values are strings, and a backup module whose payload is the session state itself.
  They show that the contracts assumed of the collaborators below can be met.
\<close>

definition demo_sodium :: sodium where
  "demo_sodium =
     \<lparr>crypto_secretbox_KEYBYTES = 32,
      crypto_secretbox_NONCEBYTES = 24,
      crypto_generichash = (\<lambda>n m k. take n (k @ replicate n 0)),
      crypto_secretbox_easy = (\<lambda>p n k. k @ n @ p),
      crypto_secretbox_open_easy = (\<lambda>c n k.
        if take (length k + length n) c = k @ n
        then Some (drop (length k + length n) c) else None)\<rparr>"

text \<open>
  A second cipher, which adds a pad made from the key to every byte of the plaintext
  and puts the nonce in front: its boxes depend on the key and do not hold it.
\<close>

definition pad_sodium :: sodium where
  "pad_sodium =
     demo_sodium
       \<lparr>crypto_secretbox_easy := (\<lambda>p n k. n @ map (\<lambda>b. b + sum_list k) p),
        crypto_secretbox_open_easy := (\<lambda>c n k.
          if take (length n) c = n
          then Some (map (\<lambda>b. b - sum_list k) (drop (length n) c)) else None)\<rparr>"

definition demo_runtime :: "string runtime" where
  "demo_runtime =
     \<lparr>JSON_stringify = (\<lambda>p. p),
      JSON_parse = (\<lambda>s. if s = [] then None else Some s),
      TextEncoder_encode = map (\<lambda>c. of_nat (of_char c)),
      TextDecoder_decode = map (\<lambda>b. char_of (unat b))\<rparr>"

definition demo_backup :: "(string, string) backup" where
  "demo_backup =
     \<lparr>buildBackupPayload = (\<lambda>s. s),
      restoreCryptoFromPayload = (\<lambda>p s. Restored p)\<rparr>"

definition demo_env :: environment where
  "demo_env =
     \<lparr>open_succeeds = True, open_throws = False, transaction_opens = True,
      request_succeeds = True, write_failure = ErrorEvent,
      randombytes_buf = (\<lambda>n. replicate n 7), toISOString = ''2024-01-01T00:00:00.000Z''\<rparr>"

definition demo_world :: "string world" where
  "demo_world = \<lparr>dbPromise = False, sessions = Map.empty, cryptoState = ''{}''\<rparr>"

definition failing_open_env :: environment where
  "failing_open_env = demo_env\<lparr>open_succeeds := False\<rparr>"

definition failing_write_env :: environment where
  "failing_write_env = demo_env\<lparr>request_succeeds := False\<rparr>"

definition aborting_write_env :: environment where
  "aborting_write_env = demo_env\<lparr>request_succeeds := False, write_failure := AbortOnly\<rparr>"

definition two_user_world :: "string world" where
  "two_user_world =
     \<lparr>dbPromise = False,
      sessions = [''user-1'' \<mapsto> \<lparr>userId = ''user-1'', encrypted = [1], nonce = [2],
                                   updatedAt = ''2024-01-01T00:00:00.000Z''\<rparr>,
                  ''user-2'' \<mapsto> \<lparr>userId = ''user-2'', encrypted = [3], nonce = [4],
                                   updatedAt = ''2024-01-02T00:00:00.000Z''\<rparr>],
      cryptoState = ''{}''\<rparr>"

section \<open>Properties of the persistence functions\<close>

lemma demo_sodium_length:
  "length (crypto_generichash demo_sodium n m k) = n"
  by (simp add: demo_sodium_def)

lemma demo_sodium_opens:
  "crypto_secretbox_open_easy demo_sodium (crypto_secretbox_easy demo_sodium p n k) n k = Some p"
  by (simp add: demo_sodium_def)

lemma demo_sodium_authentic:
  "length k = length k' \<Longrightarrow> k \<noteq> k' \<Longrightarrow>
   crypto_secretbox_open_easy demo_sodium (crypto_secretbox_easy demo_sodium p n k) n k' = None"
  by (simp add: demo_sodium_def)

lemma demo_runtime_roundtrip:
  "TextDecoder_decode demo_runtime (TextEncoder_encode demo_runtime s) = s"
proof -
  have "char_of (unat (of_nat (of_char c) :: 8 word)) = c" for c :: char
  proof -
    have "of_char c < (256 :: nat)" by simp
    then have "unat (of_nat (of_char c) :: 8 word) = of_char c"
      by (simp add: unat_of_nat)
    then show ?thesis by simp
  qed
  then show ?thesis
    by (simp add: demo_runtime_def comp_def map_idI)
qed

subsection \<open>What one call does once the storage answers\<close>

lemma persist_success:
  assumes "dbPromise w \<or> open_succeeds env" "transaction_opens env" "request_succeeds env"
  shows "persistCryptoState sod rt bk env uid K w =
    (Resolved (),
     w\<lparr>dbPromise := True,
       sessions := (sessions w)(uid \<mapsto>
         \<lparr>userId = uid,
          encrypted = crypto_secretbox_easy sod
            (TextEncoder_encode rt (JSON_stringify rt (buildBackupPayload bk (cryptoState w))))
            (randombytes_buf env (crypto_secretbox_NONCEBYTES sod))
            (deriveStorageKey sod rt K),
          nonce = randombytes_buf env (crypto_secretbox_NONCEBYTES sod),
          updatedAt = toISOString env\<rparr>)\<rparr>)"
  using assms by (auto simp: persistCryptoState_def openDb_def Let_def)

lemma persist_unsettled_keeps_store:
  assumes "fst (persistCryptoState sod rt bk env uid K w) \<noteq> Resolved ()"
  shows "sessions (snd (persistCryptoState sod rt bk env uid K w)) = sessions w
     \<and> cryptoState (snd (persistCryptoState sod rt bk env uid K w)) = cryptoState w"
  using assms
  by (auto simp: persistCryptoState_def openDb_def Let_def split: if_splits write_failure.splits)

lemma persist_sessions:
  "sessions (snd (persistCryptoState sod rt bk env uid K w)) =
     (if fst (persistCryptoState sod rt bk env uid K w) = Resolved ()
      then (sessions w)(uid \<mapsto>
        \<lparr>userId = uid,
         encrypted = crypto_secretbox_easy sod
           (TextEncoder_encode rt (JSON_stringify rt (buildBackupPayload bk (cryptoState w))))
           (randombytes_buf env (crypto_secretbox_NONCEBYTES sod))
           (deriveStorageKey sod rt K),
         nonce = randombytes_buf env (crypto_secretbox_NONCEBYTES sod),
         updatedAt = toISOString env\<rparr>)
      else sessions w)"
  by (auto simp: persistCryptoState_def openDb_def Let_def split: write_failure.splits)

lemma load_keeps_store:
  "sessions (snd (loadCryptoState sod rt bk env uid K w)) = sessions w"
  by (auto simp: loadCryptoState_def openDb_def split: option.splits restored.splits)

lemma clear_only_removes:
  "sessions (snd (clearCryptoStore env uid w)) u = Some r \<Longrightarrow> sessions w u = Some r"
  by (auto simp: clearCryptoStore_def openDb_def split: option.splits if_splits)

lemma load_opened:
  assumes "dbPromise w \<or> open_succeeds env" "transaction_opens env" "request_succeeds env"
    and "sessions w uid = Some r"
  shows "loadCryptoState sod rt bk env uid K w =
    (case crypto_secretbox_open_easy sod (encrypted r) (nonce r) (deriveStorageKey sod rt K) of
       None \<Rightarrow> (Resolved False, w\<lparr>dbPromise := True\<rparr>)
     | Some plaintext \<Rightarrow>
         (case JSON_parse rt (TextDecoder_decode rt plaintext) of
            None \<Rightarrow> (Resolved False, w\<lparr>dbPromise := True\<rparr>)
          | Some payload \<Rightarrow>
              (case restoreCryptoFromPayload bk payload (cryptoState w) of
                 Restored s \<Rightarrow> (Resolved True, w\<lparr>dbPromise := True, cryptoState := s\<rparr>)
               | RestoreThrew s \<Rightarrow> (Resolved False, w\<lparr>dbPromise := True, cryptoState := s\<rparr>))))"
  using assms
  by (auto simp: loadCryptoState_def openDb_def split: option.splits restored.splits)

lemma load_false_once_open:
  assumes "dbPromise w \<or> open_succeeds env" and "transaction_opens env"
    and "\<not> request_succeeds env \<or> sessions w uid = None
         \<or> (\<exists>r. sessions w uid = Some r \<and>
               (crypto_secretbox_open_easy sod (encrypted r) (nonce r)
                  (deriveStorageKey sod rt K) = None
                \<or> (\<exists>p. crypto_secretbox_open_easy sod (encrypted r) (nonce r)
                          (deriveStorageKey sod rt K) = Some p
                        \<and> JSON_parse rt (TextDecoder_decode rt p) = None)))"
  shows "loadCryptoState sod rt bk env uid K w = (Resolved False, w\<lparr>dbPromise := True\<rparr>)"
  using assms
  by (auto simp: loadCryptoState_def openDb_def split: option.splits restored.splits)

lemma load_changes_state_only_after_parse:
  assumes "cryptoState (snd (loadCryptoState sod rt bk env uid K w)) \<noteq> cryptoState w"
  shows "\<exists>r plaintext payload. sessions w uid = Some r \<and>
     crypto_secretbox_open_easy sod (encrypted r) (nonce r) (deriveStorageKey sod rt K) =
       Some plaintext \<and>
     JSON_parse rt (TextDecoder_decode rt plaintext) = Some payload"
  using assms
  by (auto simp: loadCryptoState_def openDb_def
      split: if_splits option.splits restored.splits)

lemma demo_storage_ok:
  "open_succeeds demo_env" "transaction_opens demo_env" "request_succeeds demo_env"
  by (simp_all add: demo_env_def)

lemma demo_derived_keys:
  "deriveStorageKey demo_sodium demo_runtime [1, 2, 3] \<noteq>
   deriveStorageKey demo_sodium demo_runtime [4, 5, 6]"
  by (simp add: deriveStorageKey_def demo_sodium_def)

text \<open>
  C2. \<^verbatim>\<open>persistCryptoState(u, K)\<close> followed by \<^verbatim>\<open>loadCryptoState(u, K)\<close>: when the
  storage answers both calls, the cipher opens what it sealed under the same key and
  nonce, the serialisation of the payload parses back to it, and the backup module's
  restore of a payload yields the session the payload was built from whatever the
  session in memory is, then the load resolves to \<^verbatim>\<open>true\<close> and the session in memory
  is the one that was persisted. What was in memory in between (and whether the
  connection was still cached) does not matter: the state is replaced, not merged.
\<close>

theorem persist_then_load_roundtrip:
  assumes cipher: "\<forall>p n k. crypto_secretbox_open_easy sod (crypto_secretbox_easy sod p n k) n k
                     = Some p"
    and serial: "JSON_parse rt (TextDecoder_decode rt (TextEncoder_encode rt
                   (JSON_stringify rt (buildBackupPayload bk (cryptoState w))))) =
                 Some (buildBackupPayload bk (cryptoState w))"
    and codec: "\<forall>m. restoreCryptoFromPayload bk (buildBackupPayload bk (cryptoState w)) m =
                 Restored (cryptoState w)"
    and store1: "dbPromise w \<or> open_succeeds env1" "transaction_opens env1"
                "request_succeeds env1"
    and store2: "transaction_opens env2" "request_succeeds env2"
  shows "\<exists>w1. persistCryptoState sod rt bk env1 uid K w = (Resolved (), w1)
            \<and> cryptoState w1 = cryptoState w
            \<and> (\<forall>w'. sessions w' = sessions w1 \<and> (dbPromise w' \<or> open_succeeds env2) \<longrightarrow>
                 (\<exists>w2. loadCryptoState sod rt bk env2 uid K w' = (Resolved True, w2)
                      \<and> cryptoState w2 = cryptoState w \<and> sessions w2 = sessions w1))"
proof -
  let ?r = "\<lparr>userId = uid,
          encrypted = crypto_secretbox_easy sod
            (TextEncoder_encode rt (JSON_stringify rt (buildBackupPayload bk (cryptoState w))))
            (randombytes_buf env1 (crypto_secretbox_NONCEBYTES sod))
            (deriveStorageKey sod rt K),
          nonce = randombytes_buf env1 (crypto_secretbox_NONCEBYTES sod),
          updatedAt = toISOString env1\<rparr>"
  let ?w1 = "w\<lparr>dbPromise := True, sessions := (sessions w)(uid \<mapsto> ?r)\<rparr>"
  have p: "persistCryptoState sod rt bk env1 uid K w = (Resolved (), ?w1)"
    using store1 by (rule persist_success)
  have l: "\<exists>w2. loadCryptoState sod rt bk env2 uid K w' = (Resolved True, w2)
              \<and> cryptoState w2 = cryptoState w \<and> sessions w2 = sessions ?w1"
    if "sessions w' = sessions ?w1" and "dbPromise w' \<or> open_succeeds env2" for w'
  proof -
    have r: "sessions w' uid = Some ?r"
      using that(1) by simp
    have "loadCryptoState sod rt bk env2 uid K w' =
        (Resolved True, w'\<lparr>dbPromise := True, cryptoState := cryptoState w\<rparr>)"
      using cipher serial codec
      by (simp add: load_opened [OF that(2) store2 r])
    then show ?thesis using that(1) by simp
  qed
  show ?thesis
    using p l by (intro exI [of _ ?w1]) simp
qed

theorem persist_then_load_roundtrip_witness:
  "\<exists>w1. persistCryptoState demo_sodium demo_runtime demo_backup demo_env ''user-1'' [1, 2, 3]
           demo_world = (Resolved (), w1)
       \<and> cryptoState w1 = ''{}''
       \<and> (\<exists>w2. loadCryptoState demo_sodium demo_runtime demo_backup demo_env ''user-1'' [1, 2, 3]
                  (w1\<lparr>cryptoState := ''stale''\<rparr>) = (Resolved True, w2)
              \<and> cryptoState w2 = ''{}'')"
proof -
  have cipher: "\<forall>p n k. crypto_secretbox_open_easy demo_sodium
      (crypto_secretbox_easy demo_sodium p n k) n k = Some p"
    by (simp add: demo_sodium_opens)
  have serial: "JSON_parse demo_runtime (TextDecoder_decode demo_runtime
      (TextEncoder_encode demo_runtime (JSON_stringify demo_runtime
        (buildBackupPayload demo_backup (cryptoState demo_world))))) =
      Some (buildBackupPayload demo_backup (cryptoState demo_world))"
    by (simp add: demo_runtime_roundtrip)
      (simp add: demo_runtime_def demo_backup_def demo_world_def)
  have codec: "\<forall>m. restoreCryptoFromPayload demo_backup
      (buildBackupPayload demo_backup (cryptoState demo_world)) m =
      Restored (cryptoState demo_world)"
    by (simp add: demo_backup_def)
  have s1: "dbPromise demo_world \<or> open_succeeds demo_env"
    by (simp add: demo_storage_ok)
  from persist_then_load_roundtrip [OF cipher serial codec s1 demo_storage_ok(2,3)
      demo_storage_ok(2,3), of "''user-1''" "[1, 2, 3]"]
  obtain w1 where p: "persistCryptoState demo_sodium demo_runtime demo_backup demo_env ''user-1''
        [1, 2, 3] demo_world = (Resolved (), w1)"
    and c: "cryptoState w1 = cryptoState demo_world"
    and l: "\<And>w'. sessions w' = sessions w1 \<Longrightarrow> dbPromise w' \<or> open_succeeds demo_env \<Longrightarrow>
          \<exists>w2. loadCryptoState demo_sodium demo_runtime demo_backup demo_env ''user-1'' [1, 2, 3]
                 w' = (Resolved True, w2)
               \<and> cryptoState w2 = cryptoState demo_world \<and> sessions w2 = sessions w1"
    by blast
  have "\<exists>w2. loadCryptoState demo_sodium demo_runtime demo_backup demo_env ''user-1'' [1, 2, 3]
         (w1\<lparr>cryptoState := ''stale''\<rparr>) = (Resolved True, w2)
       \<and> cryptoState w2 = cryptoState demo_world \<and> sessions w2 = sessions w1"
    by (rule l) (simp_all add: demo_storage_ok)
  with p c show ?thesis
    by (auto simp: demo_world_def)
qed

text \<open>
  C7. \<^verbatim>\<open>persistCryptoState(u, K1)\<close> followed by \<^verbatim>\<open>loadCryptoState(u, K2)\<close>: when the
  two identity keys derive different storage keys and the cipher refuses to open, under
  a key of the cipher's key length, what it sealed under another one, the load resolves
  to \<^verbatim>\<open>false\<close> and the session in memory is whatever it was before the call, for every
  backup module: \<^verbatim>\<open>restoreCryptoFromPayload\<close> is not reached. In general a load
  changes the session in memory only after the record was found, decrypted and parsed.
\<close>

theorem load_with_wrong_key:
  assumes hash: "\<forall>n m k. length (crypto_generichash sod n m k) = n"
    and distinct_keys: "deriveStorageKey sod rt K1 \<noteq> deriveStorageKey sod rt K2"
    and authentic: "\<forall>p n k k'. length k = crypto_secretbox_KEYBYTES sod \<and>
                       length k' = crypto_secretbox_KEYBYTES sod \<and> k \<noteq> k' \<longrightarrow>
                       crypto_secretbox_open_easy sod (crypto_secretbox_easy sod p n k) n k'
                         = None"
    and store1: "dbPromise w \<or> open_succeeds env1" "transaction_opens env1"
                "request_succeeds env1"
    and store2: "transaction_opens env2" "request_succeeds env2"
  shows "(\<exists>w1. persistCryptoState sod rt bk env1 uid K1 w = (Resolved (), w1)
            \<and> (\<forall>w'. sessions w' = sessions w1 \<and> (dbPromise w' \<or> open_succeeds env2) \<longrightarrow>
                  loadCryptoState sod rt bk env2 uid K2 w' =
                    (Resolved False, w'\<lparr>dbPromise := True\<rparr>)))
       \<and> (\<forall>env u K w0.
            cryptoState (snd (loadCryptoState sod rt bk env u K w0)) \<noteq> cryptoState w0 \<longrightarrow>
            (\<exists>r plaintext payload. sessions w0 u = Some r \<and>
               crypto_secretbox_open_easy sod (encrypted r) (nonce r)
                 (deriveStorageKey sod rt K) = Some plaintext \<and>
               JSON_parse rt (TextDecoder_decode rt plaintext) = Some payload))"
proof (rule conjI)
  let ?r = "\<lparr>userId = uid,
          encrypted = crypto_secretbox_easy sod
            (TextEncoder_encode rt (JSON_stringify rt (buildBackupPayload bk (cryptoState w))))
            (randombytes_buf env1 (crypto_secretbox_NONCEBYTES sod))
            (deriveStorageKey sod rt K1),
          nonce = randombytes_buf env1 (crypto_secretbox_NONCEBYTES sod),
          updatedAt = toISOString env1\<rparr>"
  let ?w1 = "w\<lparr>dbPromise := True, sessions := (sessions w)(uid \<mapsto> ?r)\<rparr>"
  have p: "persistCryptoState sod rt bk env1 uid K1 w = (Resolved (), ?w1)"
    using store1 by (rule persist_success)
  have len: "length (deriveStorageKey sod rt K1) = crypto_secretbox_KEYBYTES sod"
       "length (deriveStorageKey sod rt K2) = crypto_secretbox_KEYBYTES sod"
    using hash by (simp_all add: deriveStorageKey_def)
  have fails: "crypto_secretbox_open_easy sod (encrypted ?r) (nonce ?r)
      (deriveStorageKey sod rt K2) = None"
    using authentic len distinct_keys by simp
  have "loadCryptoState sod rt bk env2 uid K2 w' = (Resolved False, w'\<lparr>dbPromise := True\<rparr>)"
    if "sessions w' = sessions ?w1" and "dbPromise w' \<or> open_succeeds env2" for w'
  proof -
    have r: "sessions w' uid = Some ?r"
      using that(1) by simp
    show ?thesis
      using fails by (simp add: load_opened [OF that(2) store2 r])
  qed
  with p show "\<exists>w1. persistCryptoState sod rt bk env1 uid K1 w = (Resolved (), w1)
            \<and> (\<forall>w'. sessions w' = sessions w1 \<and> (dbPromise w' \<or> open_succeeds env2) \<longrightarrow>
                  loadCryptoState sod rt bk env2 uid K2 w' =
                    (Resolved False, w'\<lparr>dbPromise := True\<rparr>))"
    by blast
next
  show "\<forall>env u K w0.
            cryptoState (snd (loadCryptoState sod rt bk env u K w0)) \<noteq> cryptoState w0 \<longrightarrow>
            (\<exists>r plaintext payload. sessions w0 u = Some r \<and>
               crypto_secretbox_open_easy sod (encrypted r) (nonce r)
                 (deriveStorageKey sod rt K) = Some plaintext \<and>
               JSON_parse rt (TextDecoder_decode rt plaintext) = Some payload)"
    using load_changes_state_only_after_parse by blast
qed

theorem load_with_wrong_key_witness:
  "\<exists>w1. persistCryptoState demo_sodium demo_runtime demo_backup demo_env ''user-1'' [1, 2, 3]
           demo_world = (Resolved (), w1)
       \<and> loadCryptoState demo_sodium demo_runtime demo_backup demo_env ''user-1'' [4, 5, 6]
           (w1\<lparr>cryptoState := ''newer''\<rparr>) =
         (Resolved False, w1\<lparr>cryptoState := ''newer'', dbPromise := True\<rparr>)"
proof -
  have hash: "\<forall>n m k. length (crypto_generichash demo_sodium n m k) = n"
    by (simp add: demo_sodium_length)
  have authentic: "\<forall>p n k k'. length k = crypto_secretbox_KEYBYTES demo_sodium \<and>
      length k' = crypto_secretbox_KEYBYTES demo_sodium \<and> k \<noteq> k' \<longrightarrow>
      crypto_secretbox_open_easy demo_sodium (crypto_secretbox_easy demo_sodium p n k) n k' = None"
    by (simp add: demo_sodium_authentic)
  have s1: "dbPromise demo_world \<or> open_succeeds demo_env"
    by (simp add: demo_storage_ok)
  from load_with_wrong_key [OF hash demo_derived_keys authentic s1 demo_storage_ok(2,3)
      demo_storage_ok(2,3), of demo_backup "''user-1''"]
  obtain w1 where p: "persistCryptoState demo_sodium demo_runtime demo_backup demo_env ''user-1''
        [1, 2, 3] demo_world = (Resolved (), w1)"
    and l: "\<And>w'. sessions w' = sessions w1 \<Longrightarrow> dbPromise w' \<or> open_succeeds demo_env \<Longrightarrow>
          loadCryptoState demo_sodium demo_runtime demo_backup demo_env ''user-1'' [4, 5, 6] w' =
            (Resolved False, w'\<lparr>dbPromise := True\<rparr>)"
    by blast
  have "loadCryptoState demo_sodium demo_runtime demo_backup demo_env ''user-1'' [4, 5, 6]
         (w1\<lparr>cryptoState := ''newer''\<rparr>) =
        (Resolved False, w1\<lparr>cryptoState := ''newer'', dbPromise := True\<rparr>)"
    by (rule l) (simp_all add: demo_storage_ok)
  with p show ?thesis by blast
qed

text \<open>
  C6, as the claim has it, fails: when the write transaction fires \<^verbatim>\<open>onerror\<close>, the
  handler calls \<^verbatim>\<open>reject(tx.error)\<close> and the promise that \<^verbatim>\<open>persistCryptoState\<close>
  returns rejects, so the failure does reach the caller.
\<close>

theorem persist_write_failure_counterexample:
  "dbPromise demo_world = False \<and> open_succeeds failing_write_env
   \<and> transaction_opens failing_write_env \<and> request_succeeds failing_write_env = False
   \<and> write_failure failing_write_env = ErrorEvent
   \<and> fst (persistCryptoState demo_sodium demo_runtime demo_backup failing_write_env ''user-1''
            [1, 2, 3] demo_world) = Rejected TxErrorNull"
  by (simp add: persistCryptoState_def openDb_def failing_write_env_def demo_env_def
      demo_world_def Let_def)

text \<open>
  C6, amended. When the write transaction of \<^verbatim>\<open>persistCryptoState\<close> fails with an
  error event, the returned promise rejects with the value that \<^verbatim>\<open>tx.error\<close> then
  has, so the failure reaches the caller. Whenever the promise does not resolve, the
  object store is as it was, so a prior record of the user is untouched, and so is the
  session in memory.
\<close>

theorem persist_error_event_rejects:
  "((dbPromise w \<or> open_succeeds env) \<and> transaction_opens env \<and> \<not> request_succeeds env
      \<and> write_failure env = ErrorEvent \<longrightarrow>
      fst (persistCryptoState sod rt bk env uid K w) = Rejected TxErrorNull)
   \<and> (fst (persistCryptoState sod rt bk env uid K w) \<noteq> Resolved () \<longrightarrow>
        sessions (snd (persistCryptoState sod rt bk env uid K w)) = sessions w
        \<and> cryptoState (snd (persistCryptoState sod rt bk env uid K w)) = cryptoState w)"
proof (intro conjI impI)
  assume "(dbPromise w \<or> open_succeeds env) \<and> transaction_opens env \<and> \<not> request_succeeds env
      \<and> write_failure env = ErrorEvent"
  then show "fst (persistCryptoState sod rt bk env uid K w) = Rejected TxErrorNull"
    by (auto simp: persistCryptoState_def openDb_def Let_def)
next
  assume "fst (persistCryptoState sod rt bk env uid K w) \<noteq> Resolved ()"
  then show "sessions (snd (persistCryptoState sod rt bk env uid K w)) = sessions w"
    and "cryptoState (snd (persistCryptoState sod rt bk env uid K w)) = cryptoState w"
    using persist_unsettled_keeps_store by blast+
qed

theorem persist_error_event_rejects_witness:
  "fst (persistCryptoState demo_sodium demo_runtime demo_backup failing_write_env ''user-1''
          [1, 2, 3] two_user_world) = Rejected TxErrorNull
   \<and> sessions (snd (persistCryptoState demo_sodium demo_runtime demo_backup failing_write_env
          ''user-1'' [1, 2, 3] two_user_world)) ''user-1'' =
       Some \<lparr>userId = ''user-1'', encrypted = [1], nonce = [2],
             updatedAt = ''2024-01-01T00:00:00.000Z''\<rparr>
   \<and> cryptoState (snd (persistCryptoState demo_sodium demo_runtime demo_backup failing_write_env
          ''user-1'' [1, 2, 3] two_user_world)) = ''{}''"
proof -
  have env: "(dbPromise two_user_world \<or> open_succeeds failing_write_env)
      \<and> transaction_opens failing_write_env \<and> \<not> request_succeeds failing_write_env
      \<and> write_failure failing_write_env = ErrorEvent"
    by (simp add: failing_write_env_def demo_env_def)
  have old: "sessions two_user_world ''user-1'' =
      Some \<lparr>userId = ''user-1'', encrypted = [1], nonce = [2],
            updatedAt = ''2024-01-01T00:00:00.000Z''\<rparr>"
    "cryptoState two_user_world = ''{}''"
    by (simp_all add: two_user_world_def)
  note main = persist_error_event_rejects [of two_user_world failing_write_env demo_sodium
      demo_runtime demo_backup "''user-1''" "[1, 2, 3]"]
  from main env have r: "fst (persistCryptoState demo_sodium demo_runtime demo_backup
      failing_write_env ''user-1'' [1, 2, 3] two_user_world) = Rejected TxErrorNull"
    by blast
  then have "fst (persistCryptoState demo_sodium demo_runtime demo_backup
      failing_write_env ''user-1'' [1, 2, 3] two_user_world) \<noteq> Resolved ()"
    by simp
  with main have "sessions (snd (persistCryptoState demo_sodium demo_runtime demo_backup
      failing_write_env ''user-1'' [1, 2, 3] two_user_world)) = sessions two_user_world"
    "cryptoState (snd (persistCryptoState demo_sodium demo_runtime demo_backup
      failing_write_env ''user-1'' [1, 2, 3] two_user_world)) = cryptoState two_user_world"
    by blast+
  with r show ?thesis
    by (simp add: old)
qed

lemma persist_abort_stays_pending:
  "fst (persistCryptoState demo_sodium demo_runtime demo_backup aborting_write_env ''user-1''
          [1, 2, 3] two_user_world) = Pending"
  by (simp add: persistCryptoState_def openDb_def aborting_write_env_def demo_env_def
      two_user_world_def Let_def)

text \<open>
  C3: the state of \<^verbatim>\<open>loadCryptoState\<close> when no connection is cached and
  \<^verbatim>\<open>indexedDB.open\<close> fires \<^verbatim>\<open>onerror\<close>. No record exists for the user, yet the
  promise rejects instead of resolving to \<^verbatim>\<open>false\<close>: \<^verbatim>\<open>await openDb()\<close> stands
  before the \<^verbatim>\<open>try\<close>.
\<close>

theorem load_rejects_when_open_fails:
  "sessions demo_world ''user-1'' = None
   \<and> loadCryptoState demo_sodium demo_runtime demo_backup failing_open_env ''user-1'' [1, 2, 3]
       demo_world = (Rejected OpenError, demo_world)"
  by (simp add: loadCryptoState_def openDb_def failing_open_env_def demo_env_def
      demo_world_def)

text \<open>
  C10: \<^verbatim>\<open>clearCryptoStore("")\<close> on a store that holds the records of two users.
  \<^verbatim>\<open>if (userId)\<close> is false for the empty string, so the call takes the branch of a
  missing id and clears the whole store: the record of \<^verbatim>\<open>"user-2"\<close> is gone,
  where one record, that of the id passed, was to be deleted.
\<close>

theorem clearCryptoStore_empty_id_clears_all:
  "sessions two_user_world ''user-2'' \<noteq> None
   \<and> sessions (snd (clearCryptoStore demo_env (Some '''') two_user_world)) ''user-2'' = None"
  by (simp add: clearCryptoStore_def openDb_def truthy_def demo_env_def two_user_world_def)

text \<open>
  For every other input \<^verbatim>\<open>clearCryptoStore\<close> does what is said of it: it always
  resolves, whatever the storage does, and when the database opens and the request
  takes effect, a non-empty user id deletes the record of that user and no other, and a
  missing user id deletes all records.
\<close>

lemma clearCryptoStore_resolves:
  "fst (clearCryptoStore env uid w) = Resolved ()
   \<and> cryptoState (snd (clearCryptoStore env uid w)) = cryptoState w
   \<and> ((dbPromise w \<or> open_succeeds env) \<and> transaction_opens env \<and> request_succeeds env \<longrightarrow>
        (\<forall>u. uid = Some u \<and> u \<noteq> [] \<longrightarrow>
           sessions (snd (clearCryptoStore env uid w)) u = None
           \<and> (\<forall>v. v \<noteq> u \<longrightarrow> sessions (snd (clearCryptoStore env uid w)) v = sessions w v))
        \<and> (uid = None \<longrightarrow> sessions (snd (clearCryptoStore env uid w)) = Map.empty))"
  by (auto simp: clearCryptoStore_def openDb_def truthy_def split: option.splits)

text \<open>
  C8. The storage key is the keyed hash of the fixed context
  \<^verbatim>\<open>"haven-local-crypto-store"\<close>, keyed by the identity private key and asked for the
  cipher's key length; when the hash returns that many bytes for this key and the
  cipher's key length is 32, it has 32 bytes. It is one value per identity key: every
  successful \<^verbatim>\<open>persistCryptoState\<close> under the key, whatever the user id, the state, the
  random bytes and the clock, seals its record under it. What is written depends on the
  identity key through the ciphertext alone: two identity keys that give the same
  ciphertext give the same outcome and the same store. And no stored byte field comes
  to contain the storage key: if none does before, none does after a
  \<^verbatim>\<open>persistCryptoState\<close> whose nonce is shorter than the key and whose ciphertext does
  not contain the key (the cipher's part), after a \<^verbatim>\<open>loadCryptoState\<close>, which writes
  nothing, or after a \<^verbatim>\<open>clearCryptoStore\<close>, which only removes records.
\<close>

theorem storage_key_derived_not_stored:
  assumes "length (crypto_generichash sod (crypto_secretbox_KEYBYTES sod) (KEY_CONTEXT rt) K) =
             crypto_secretbox_KEYBYTES sod"
    and "crypto_secretbox_KEYBYTES sod = 32"
  shows "deriveStorageKey sod rt K =
           crypto_generichash sod 32 (TextEncoder_encode rt ''haven-local-crypto-store'') K
     \<and> length (deriveStorageKey sod rt K) = 32
     \<and> (persistCryptoState sod rt bk env uid K w = (Resolved (), w1) \<longrightarrow>
          sessions w1 = (sessions w)(uid \<mapsto>
            \<lparr>userId = uid,
             encrypted = crypto_secretbox_easy sod
               (TextEncoder_encode rt (JSON_stringify rt (buildBackupPayload bk (cryptoState w))))
               (randombytes_buf env (crypto_secretbox_NONCEBYTES sod))
               (deriveStorageKey sod rt K),
             nonce = randombytes_buf env (crypto_secretbox_NONCEBYTES sod),
             updatedAt = toISOString env\<rparr>))
     \<and> (crypto_secretbox_easy sod
            (TextEncoder_encode rt (JSON_stringify rt (buildBackupPayload bk (cryptoState w))))
            (randombytes_buf env (crypto_secretbox_NONCEBYTES sod))
            (deriveStorageKey sod rt K') =
          crypto_secretbox_easy sod
            (TextEncoder_encode rt (JSON_stringify rt (buildBackupPayload bk (cryptoState w))))
            (randombytes_buf env (crypto_secretbox_NONCEBYTES sod))
            (deriveStorageKey sod rt K) \<longrightarrow>
          persistCryptoState sod rt bk env uid K' w = persistCryptoState sod rt bk env uid K w)
     \<and> (key_absent (deriveStorageKey sod rt K) (sessions w)
          \<and> length (randombytes_buf env (crypto_secretbox_NONCEBYTES sod)) < 32
          \<and> \<not> sublist (deriveStorageKey sod rt K)
                (crypto_secretbox_easy sod
                  (TextEncoder_encode rt (JSON_stringify rt (buildBackupPayload bk (cryptoState w))))
                  (randombytes_buf env (crypto_secretbox_NONCEBYTES sod))
                  (deriveStorageKey sod rt K)) \<longrightarrow>
          key_absent (deriveStorageKey sod rt K)
            (sessions (snd (persistCryptoState sod rt bk env uid K w))))
     \<and> sessions (snd (loadCryptoState sod rt bk env uid K0 w)) = sessions w
     \<and> (key_absent (deriveStorageKey sod rt K) (sessions w) \<longrightarrow>
          key_absent (deriveStorageKey sod rt K) (sessions (snd (clearCryptoStore env cid w))))"
proof (intro conjI impI)
  show "deriveStorageKey sod rt K =
          crypto_generichash sod 32 (TextEncoder_encode rt ''haven-local-crypto-store'') K"
    using assms(2) by (simp add: deriveStorageKey_def KEY_CONTEXT_def)
  show len: "length (deriveStorageKey sod rt K) = 32"
    using assms by (simp add: deriveStorageKey_def)
  show "sessions w1 = (sessions w)(uid \<mapsto>
            \<lparr>userId = uid,
             encrypted = crypto_secretbox_easy sod
               (TextEncoder_encode rt (JSON_stringify rt (buildBackupPayload bk (cryptoState w))))
               (randombytes_buf env (crypto_secretbox_NONCEBYTES sod))
               (deriveStorageKey sod rt K),
             nonce = randombytes_buf env (crypto_secretbox_NONCEBYTES sod),
             updatedAt = toISOString env\<rparr>)"
    if "persistCryptoState sod rt bk env uid K w = (Resolved (), w1)"
    using that persist_sessions [of sod rt bk env uid K w] by simp
  show "persistCryptoState sod rt bk env uid K' w = persistCryptoState sod rt bk env uid K w"
    if "crypto_secretbox_easy sod
            (TextEncoder_encode rt (JSON_stringify rt (buildBackupPayload bk (cryptoState w))))
            (randombytes_buf env (crypto_secretbox_NONCEBYTES sod))
            (deriveStorageKey sod rt K') =
          crypto_secretbox_easy sod
            (TextEncoder_encode rt (JSON_stringify rt (buildBackupPayload bk (cryptoState w))))
            (randombytes_buf env (crypto_secretbox_NONCEBYTES sod))
            (deriveStorageKey sod rt K)"
    unfolding persistCryptoState_def Let_def by (simp only: that)
  show "sessions (snd (loadCryptoState sod rt bk env uid K0 w)) = sessions w"
    by (rule load_keeps_store)
  show "key_absent (deriveStorageKey sod rt K) (sessions (snd (clearCryptoStore env cid w)))"
    if "key_absent (deriveStorageKey sod rt K) (sessions w)"
    using that clear_only_removes by blast
  show "key_absent (deriveStorageKey sod rt K)
            (sessions (snd (persistCryptoState sod rt bk env uid K w)))"
    if h: "key_absent (deriveStorageKey sod rt K) (sessions w)
          \<and> length (randombytes_buf env (crypto_secretbox_NONCEBYTES sod)) < 32
          \<and> \<not> sublist (deriveStorageKey sod rt K)
                (crypto_secretbox_easy sod
                  (TextEncoder_encode rt (JSON_stringify rt (buildBackupPayload bk (cryptoState w))))
                  (randombytes_buf env (crypto_secretbox_NONCEBYTES sod))
                  (deriveStorageKey sod rt K))"
  proof -
    have short: "\<not> sublist (deriveStorageKey sod rt K)
        (randombytes_buf env (crypto_secretbox_NONCEBYTES sod))"
      using h len sublist_length_le by fastforce
    show ?thesis
      using h short by (auto simp: persist_sessions split: if_splits)
  qed
qed

theorem storage_key_derived_not_stored_witness:
  "length (deriveStorageKey pad_sodium demo_runtime [1, 2, 3]) = 32
   \<and> persistCryptoState pad_sodium demo_runtime demo_backup demo_env ''user-1'' [1, 2, 3, 0]
       demo_world =
     persistCryptoState pad_sodium demo_runtime demo_backup demo_env ''user-1'' [1, 2, 3]
       demo_world
   \<and> fst (persistCryptoState pad_sodium demo_runtime demo_backup demo_env ''user-1'' [1, 2, 3]
       demo_world) = Resolved ()
   \<and> (\<exists>r. sessions (snd (persistCryptoState pad_sodium demo_runtime demo_backup demo_env
          ''user-1'' [1, 2, 3] demo_world)) ''user-1'' = Some r
        \<and> \<not> sublist (deriveStorageKey pad_sodium demo_runtime [1, 2, 3]) (encrypted r)
        \<and> \<not> sublist (deriveStorageKey pad_sodium demo_runtime [1, 2, 3]) (nonce r))"
proof -
  let ?k = "deriveStorageKey pad_sodium demo_runtime [1, 2, 3]"
  let ?box = "crypto_secretbox_easy pad_sodium
      (TextEncoder_encode demo_runtime (JSON_stringify demo_runtime
         (buildBackupPayload demo_backup (cryptoState demo_world))))
      (randombytes_buf demo_env (crypto_secretbox_NONCEBYTES pad_sodium))"
  have hash: "length (crypto_generichash pad_sodium (crypto_secretbox_KEYBYTES pad_sodium)
      (KEY_CONTEXT demo_runtime) [1, 2, 3]) = crypto_secretbox_KEYBYTES pad_sodium"
    by (simp add: pad_sodium_def demo_sodium_def)
  have kb: "crypto_secretbox_KEYBYTES pad_sodium = 32"
    by (simp add: pad_sodium_def demo_sodium_def)
  note main = storage_key_derived_not_stored [OF hash kb, where bk = demo_backup
      and env = demo_env and uid = "''user-1''" and w = demo_world and K' = "[1, 2, 3, 0]"]
  have len: "length ?k = 32"
    using main by blast
  have same_key: "deriveStorageKey pad_sodium demo_runtime [1, 2, 3, 0] = ?k"
    by (simp add: deriveStorageKey_def pad_sodium_def demo_sodium_def eval_nat_numeral)
  then have same_box: "?box (deriveStorageKey pad_sodium demo_runtime [1, 2, 3, 0]) = ?box ?k"
    by simp
  from main same_box have flow:
    "persistCryptoState pad_sodium demo_runtime demo_backup demo_env ''user-1'' [1, 2, 3, 0]
       demo_world =
     persistCryptoState pad_sodium demo_runtime demo_backup demo_env ''user-1'' [1, 2, 3]
       demo_world"
    by blast
  have ok: "fst (persistCryptoState pad_sodium demo_runtime demo_backup demo_env ''user-1''
      [1, 2, 3] demo_world) = Resolved ()"
    by (simp add: persistCryptoState_def openDb_def demo_env_def demo_world_def Let_def)
  have empty: "key_absent ?k (sessions demo_world)"
    by (simp add: demo_world_def)
  have nonce_len: "length (randombytes_buf demo_env (crypto_secretbox_NONCEBYTES pad_sodium)) < 32"
    by (simp add: demo_env_def pad_sodium_def demo_sodium_def)
  have "length (?box ?k) < 32"
    by (simp add: pad_sodium_def demo_sodium_def demo_env_def demo_runtime_def demo_backup_def
        demo_world_def)
  then have sealed: "\<not> sublist ?k (?box ?k)"
    using len sublist_length_le by fastforce
  from main empty nonce_len sealed
  have absent: "key_absent ?k (sessions (snd (persistCryptoState pad_sodium demo_runtime
      demo_backup demo_env ''user-1'' [1, 2, 3] demo_world)))"
    by blast
  have "\<exists>r. sessions (snd (persistCryptoState pad_sodium demo_runtime demo_backup demo_env
      ''user-1'' [1, 2, 3] demo_world)) ''user-1'' = Some r"
    by (simp add: persist_sessions ok)
  with absent have "\<exists>r. sessions (snd (persistCryptoState pad_sodium demo_runtime demo_backup
        demo_env ''user-1'' [1, 2, 3] demo_world)) ''user-1'' = Some r
      \<and> \<not> sublist ?k (encrypted r) \<and> \<not> sublist ?k (nonce r)"
    by blast
  with len flow ok show ?thesis
    by blast
qed

section \<open>Properties of the sender-key coordinator\<close>

subsection \<open>What a call that generates a key leaves behind\<close>

lemma generateSenderKey_Some:
  "provider (callCount st) = Some (d, c) \<Longrightarrow>
   generateSenderKey provider st =
     Some (\<lparr>distributionId = length (heap st), chainKey = Suc (length (heap st)), chainIndex = 0\<rparr>,
           st\<lparr>heap := heap st @ [d, c], callCount := Suc (callCount st)\<rparr>)"
  by (simp add: generateSenderKey_def new_Uint8Array_def)

lemma cloneSenderKey_eq:
  "cloneSenderKey k st =
     (\<lparr>distributionId = length (heap st), chainKey = Suc (length (heap st)),
       chainIndex = chainIndex k\<rparr>,
      st\<lparr>heap := heap st @ [deref (heap st) (distributionId k),
                             deref (heap st @ [deref (heap st) (distributionId k)]) (chainKey k)]\<rparr>)"
  by (simp add: cloneSenderKey_def new_Uint8Array_def)

lemma ensure_generates_with_user:
  assumes "getOwnKey st c = None"
    and "provider (callCount st) = Some (d, ck)"
    and "map_of (receivedSenderKeys st) (c, d) = None"
  shows "ensureSenderKeyDistributed provider (Some u) delivered c st =
    (Inr \<lparr>distributionId = length (heap st), chainKey = Suc (length (heap st)), chainIndex = 0\<rparr>,
     distribute delivered c
       (st\<lparr>heap := heap st @ [d, ck, d, ck, d, ck],
           callCount := Suc (callCount st),
           mySenderKeys := AList.update c
             \<lparr>distributionId = length (heap st), chainKey = Suc (length (heap st)), chainIndex = 0\<rparr>
             (mySenderKeys st),
           receivedSenderKeys := receivedSenderKeys st @
             [((c, d), \<lparr>fromUserId = u,
                 key = \<lparr>distributionId = length (heap st) + 4, chainKey = length (heap st) + 5,
                        chainIndex = 0\<rparr>\<rparr>)]\<rparr>))"
  using assms
  by (cases st)
    (simp add: ensureSenderKeyDistributed_def generateSenderKey_Some cloneSenderKey_eq
      setOwnKey_def addReceivedKey_def deref_def nth_append Let_def getOwnKey_def
      eval_nat_numeral)

lemma ensure_generates_without_user:
  assumes "getOwnKey st c = None"
    and "provider (callCount st) = Some (d, ck)"
  shows "ensureSenderKeyDistributed provider None delivered c st =
    (Inr \<lparr>distributionId = length (heap st), chainKey = Suc (length (heap st)), chainIndex = 0\<rparr>,
     distribute delivered c
       (st\<lparr>heap := heap st @ [d, ck],
           callCount := Suc (callCount st),
           mySenderKeys := AList.update c
             \<lparr>distributionId = length (heap st), chainKey = Suc (length (heap st)), chainIndex = 0\<rparr>
             (mySenderKeys st)\<rparr>))"
  using assms
  by (cases st)
    (simp add: ensureSenderKeyDistributed_def generateSenderKey_Some setOwnKey_def Let_def
      getOwnKey_def)

lemma distribute_fields [simp]:
  "heap (distribute b c st) = heap st"
  "mySenderKeys (distribute b c st) = mySenderKeys st"
  "receivedSenderKeys (distribute b c st) = receivedSenderKeys st"
  "callCount (distribute b c st) = callCount st"
  "getOwnKey (distribute b c st) ch = getOwnKey st ch"
  "c \<in> set (distributedChannels (distribute True c st))"
  by (simp_all add: distribute_def getOwnKey_def)

lemma invalidate_fields [simp]:
  "heap (invalidateSenderKey c st) = heap st"
  "receivedSenderKeys (invalidateSenderKey c st) = receivedSenderKeys st"
  "callCount (invalidateSenderKey c st) = callCount st"
  "getOwnKey (invalidateSenderKey c st) c = None"
  "c \<notin> set (distributedChannels (invalidateSenderKey c st))"
  by (simp_all add: invalidateSenderKey_def removeOwnKey_def getOwnKey_def delete_conv')

lemma ensure_existing_key:
  assumes "getOwnKey st c = Some k"
  shows "fst (ensureSenderKeyDistributed provider user delivered c st) = Inr k
     \<and> heap (snd (ensureSenderKeyDistributed provider user delivered c st)) = heap st
     \<and> mySenderKeys (snd (ensureSenderKeyDistributed provider user delivered c st)) =
         mySenderKeys st
     \<and> receivedSenderKeys (snd (ensureSenderKeyDistributed provider user delivered c st)) =
         receivedSenderKeys st"
  using assms by (simp add: ensureSenderKeyDistributed_def)

lemma map_of_append_fresh:
  "map_of rs x = None \<Longrightarrow> map_of (rs @ [(x, e)]) x = Some e"
  by (simp add: map_add_def)

lemma map_of_append_other:
  "y \<noteq> x \<Longrightarrow> map_of (rs @ [(x, e)]) y = map_of rs y"
  by (simp add: map_add_def split: option.splits)

lemma filter_key_fresh:
  "map_of rs x = None \<Longrightarrow> filter (\<lambda>(mapKey, e). mapKey = x) rs = []"
  by (induction rs) (auto split: if_splits)

lemma writeByte_other:
  "r \<noteq> r' \<Longrightarrow> deref (writeByte r i v h) r' = deref h r'"
  by (simp add: writeByte_def deref_def)

lemma selfCopies_append:
  "receivedSenderKeys st' = receivedSenderKeys st @ [((c, d), \<lparr>fromUserId = u, key = k\<rparr>)] \<Longrightarrow>
   length (selfCopies c u st') = Suc (length (selfCopies c u st))"
  by (simp add: selfCopies_def listReceivedKeys_def)

lemma fresh_facts:
  "getOwnKey fresh c = None"
  "mock_generateSenderKey (callCount fresh) = Some (fakeDistId[0 := 1], fakeChainKey)"
  "mock_generateSenderKey (Suc (callCount fresh)) = Some (fakeDistId[0 := 2], fakeChainKey)"
  "map_of (receivedSenderKeys fresh) x = None"
  "selfCopies c u fresh = []"
  "fakeDistId[0 := 1] \<noteq> fakeDistId[0 := 2]"
  by (simp_all add: fresh_def getOwnKey_def mock_generateSenderKey_def selfCopies_def
      listReceivedKeys_def fakeDistId_def)

text \<open>
  C1. A call of \<^verbatim>\<open>ensureSenderKeyDistributed(c)\<close> that generates the key of channel
  \<open>c\<close> (the channel has no own key) while the local user \<open>u\<close> is known, the provider
  yielding a distribution id under which the channel has no received key yet: afterwards
  the received keys hold exactly one entry keyed by the channel and the own key's
  distribution id; it is from \<open>u\<close>; its distribution id, chain key and chain index equal
  the own key's; its two buffers are other objects than the own key's; and writing into
  the own key's chain key leaves the self-copy's chain key as it is. A later call that
  finds an own key for its channel returns it and changes neither the own keys, nor the
  received keys, nor any buffer, so what the generating call established stays.
\<close>

theorem self_copy_after_generation:
  assumes "getOwnKey st c = None"
    and "provider (callCount st) = Some (d, ck)"
    and "map_of (receivedSenderKeys st) (c, d) = None"
    and "ensureSenderKeyDistributed provider (Some u) delivered c st = (r, st')"
  shows "(\<exists>k e. r = Inr k \<and> getOwnKey st' c = Some k
     \<and> deref (heap st') (distributionId k) = d
     \<and> length (filter (\<lambda>(mapKey, e). mapKey = (c, d)) (receivedSenderKeys st')) = 1
     \<and> map_of (receivedSenderKeys st') (c, d) = Some e
     \<and> fromUserId e = u
     \<and> deref (heap st') (distributionId (key e)) = deref (heap st') (distributionId k)
     \<and> deref (heap st') (chainKey (key e)) = deref (heap st') (chainKey k)
     \<and> chainIndex (key e) = chainIndex k
     \<and> distributionId (key e) \<noteq> distributionId k
     \<and> chainKey (key e) \<noteq> chainKey k
     \<and> (\<forall>i v. deref (writeByte (chainKey k) i v (heap st')) (chainKey (key e)) =
                deref (heap st') (chainKey (key e))))
   \<and> (\<forall>s k0 user' delivered'. getOwnKey s c = Some k0 \<longrightarrow>
        fst (ensureSenderKeyDistributed provider user' delivered' c s) = Inr k0
        \<and> heap (snd (ensureSenderKeyDistributed provider user' delivered' c s)) = heap s
        \<and> mySenderKeys (snd (ensureSenderKeyDistributed provider user' delivered' c s)) =
            mySenderKeys s
        \<and> receivedSenderKeys (snd (ensureSenderKeyDistributed provider user' delivered' c s)) =
            receivedSenderKeys s)"
proof -
  let ?k = "\<lparr>distributionId = length (heap st), chainKey = Suc (length (heap st)), chainIndex = 0\<rparr>"
  let ?e = "\<lparr>fromUserId = u,
             key = \<lparr>distributionId = length (heap st) + 4, chainKey = length (heap st) + 5,
                    chainIndex = 0\<rparr>\<rparr>"
  have "ensureSenderKeyDistributed provider (Some u) delivered c st =
      (Inr ?k, distribute delivered c
        (st\<lparr>heap := heap st @ [d, ck, d, ck, d, ck], callCount := Suc (callCount st),
            mySenderKeys := AList.update c ?k (mySenderKeys st),
            receivedSenderKeys := receivedSenderKeys st @ [((c, d), ?e)]\<rparr>))"
    using assms(1-3) by (rule ensure_generates_with_user)
  with assms(4) have r: "r = Inr ?k"
    and h: "heap st' = heap st @ [d, ck, d, ck, d, ck]"
    and own: "mySenderKeys st' = AList.update c ?k (mySenderKeys st)"
    and rs: "receivedSenderKeys st' = receivedSenderKeys st @ [((c, d), ?e)]"
    by auto
  have 1: "getOwnKey st' c = Some ?k"
    by (simp add: getOwnKey_def own update_conv')
  have 2: "deref (heap st') (distributionId ?k) = d"
    by (simp add: h deref_def nth_append)
  have 3: "length (filter (\<lambda>(mapKey, e). mapKey = (c, d)) (receivedSenderKeys st')) = 1"
    by (simp add: rs filter_key_fresh [OF assms(3)])
  have 4: "map_of (receivedSenderKeys st') (c, d) = Some ?e"
    unfolding rs using assms(3) by (rule map_of_append_fresh)
  have 5: "deref (heap st') (distributionId (key ?e)) = deref (heap st') (distributionId ?k)"
    "deref (heap st') (chainKey (key ?e)) = deref (heap st') (chainKey ?k)"
    by (simp_all add: h deref_def nth_append)
  have 6: "deref (writeByte (chainKey ?k) i v (heap st')) (chainKey (key ?e)) =
           deref (heap st') (chainKey (key ?e))" for i v
    by (rule writeByte_other) simp
  have first: "\<exists>k e. r = Inr k \<and> getOwnKey st' c = Some k
     \<and> deref (heap st') (distributionId k) = d
     \<and> length (filter (\<lambda>(mapKey, e). mapKey = (c, d)) (receivedSenderKeys st')) = 1
     \<and> map_of (receivedSenderKeys st') (c, d) = Some e
     \<and> fromUserId e = u
     \<and> deref (heap st') (distributionId (key e)) = deref (heap st') (distributionId k)
     \<and> deref (heap st') (chainKey (key e)) = deref (heap st') (chainKey k)
     \<and> chainIndex (key e) = chainIndex k
     \<and> distributionId (key e) \<noteq> distributionId k
     \<and> chainKey (key e) \<noteq> chainKey k
     \<and> (\<forall>i v. deref (writeByte (chainKey k) i v (heap st')) (chainKey (key e)) =
                deref (heap st') (chainKey (key e)))"
    using r 1 2 3 4 5 6 by (intro exI [of _ ?k] exI [of _ ?e]) simp
  have later: "fst (ensureSenderKeyDistributed provider user' delivered' c s) = Inr k0
        \<and> heap (snd (ensureSenderKeyDistributed provider user' delivered' c s)) = heap s
        \<and> mySenderKeys (snd (ensureSenderKeyDistributed provider user' delivered' c s)) =
            mySenderKeys s
        \<and> receivedSenderKeys (snd (ensureSenderKeyDistributed provider user' delivered' c s)) =
            receivedSenderKeys s"
    if "getOwnKey s c = Some k0" for s k0 user' delivered'
    using that by (rule ensure_existing_key)
  show ?thesis
  proof (rule conjI)
    show "\<exists>k e. r = Inr k \<and> getOwnKey st' c = Some k
     \<and> deref (heap st') (distributionId k) = d
     \<and> length (filter (\<lambda>(mapKey, e). mapKey = (c, d)) (receivedSenderKeys st')) = 1
     \<and> map_of (receivedSenderKeys st') (c, d) = Some e
     \<and> fromUserId e = u
     \<and> deref (heap st') (distributionId (key e)) = deref (heap st') (distributionId k)
     \<and> deref (heap st') (chainKey (key e)) = deref (heap st') (chainKey k)
     \<and> chainIndex (key e) = chainIndex k
     \<and> distributionId (key e) \<noteq> distributionId k
     \<and> chainKey (key e) \<noteq> chainKey k
     \<and> (\<forall>i v. deref (writeByte (chainKey k) i v (heap st')) (chainKey (key e)) =
                deref (heap st') (chainKey (key e)))"
      by (rule first)
  next
    show "\<forall>s k0 user' delivered'. getOwnKey s c = Some k0 \<longrightarrow>
        fst (ensureSenderKeyDistributed provider user' delivered' c s) = Inr k0
        \<and> heap (snd (ensureSenderKeyDistributed provider user' delivered' c s)) = heap s
        \<and> mySenderKeys (snd (ensureSenderKeyDistributed provider user' delivered' c s)) =
            mySenderKeys s
        \<and> receivedSenderKeys (snd (ensureSenderKeyDistributed provider user' delivered' c s)) =
            receivedSenderKeys s"
      using later by blast
  qed
qed

theorem self_copy_after_generation_witness:
  "\<exists>k e. fst first_call = Inr k \<and> getOwnKey (snd first_call) ''ch-1'' = Some k
     \<and> deref (heap (snd first_call)) (distributionId k) = fakeDistId[0 := 1]
     \<and> length (filter (\<lambda>(mapKey, e). mapKey = (''ch-1'', fakeDistId[0 := 1]))
         (receivedSenderKeys (snd first_call))) = 1
     \<and> map_of (receivedSenderKeys (snd first_call)) (''ch-1'', fakeDistId[0 := 1]) = Some e
     \<and> fromUserId e = ''user-1''
     \<and> deref (heap (snd first_call)) (distributionId (key e)) =
         deref (heap (snd first_call)) (distributionId k)
     \<and> deref (heap (snd first_call)) (chainKey (key e)) =
         deref (heap (snd first_call)) (chainKey k)
     \<and> chainIndex (key e) = chainIndex k
     \<and> distributionId (key e) \<noteq> distributionId k
     \<and> chainKey (key e) \<noteq> chainKey k
     \<and> (\<forall>i v. deref (writeByte (chainKey k) i v (heap (snd first_call))) (chainKey (key e)) =
                deref (heap (snd first_call)) (chainKey (key e)))"
proof -
  have run: "ensureSenderKeyDistributed mock_generateSenderKey (Some ''user-1'') True ''ch-1''
      fresh = (fst first_call, snd first_call)"
    by (simp add: first_call_def)
  show ?thesis
    by (rule conjunct1 [OF self_copy_after_generation [where provider = mock_generateSenderKey
          and st = fresh and ck = fakeChainKey and delivered = True,
          OF fresh_facts(1) fresh_facts(2) fresh_facts(4) run]])
qed

text \<open>
  C9. A call of \<^verbatim>\<open>ensureSenderKeyDistributed(c)\<close> that generates the key of channel
  \<open>c\<close> while no local user id is known: the own key is generated and stored, and the
  received keys are what they were, so a session that had none still has none.
\<close>

theorem no_self_copy_without_user:
  assumes "getOwnKey st c = None"
    and "provider (callCount st) = Some (d, ck)"
    and "ensureSenderKeyDistributed provider None delivered c st = (r, st')"
  shows "\<exists>k. r = Inr k \<and> getOwnKey st' c = Some k
     \<and> deref (heap st') (distributionId k) = d
     \<and> deref (heap st') (chainKey k) = ck
     \<and> chainIndex k = 0
     \<and> receivedSenderKeys st' = receivedSenderKeys st
     \<and> length (receivedSenderKeys st') = length (receivedSenderKeys st)"
proof -
  let ?k = "\<lparr>distributionId = length (heap st), chainKey = Suc (length (heap st)), chainIndex = 0\<rparr>"
  have "ensureSenderKeyDistributed provider None delivered c st =
      (Inr ?k, distribute delivered c
        (st\<lparr>heap := heap st @ [d, ck], callCount := Suc (callCount st),
            mySenderKeys := AList.update c ?k (mySenderKeys st)\<rparr>))"
    using assms(1,2) by (rule ensure_generates_without_user)
  with assms(3) have r: "r = Inr ?k"
    and h: "heap st' = heap st @ [d, ck]"
    and own: "mySenderKeys st' = AList.update c ?k (mySenderKeys st)"
    and rs: "receivedSenderKeys st' = receivedSenderKeys st"
    by auto
  have "getOwnKey st' c = Some ?k"
    by (simp add: getOwnKey_def own update_conv')
  moreover have "deref (heap st') (distributionId ?k) = d" "deref (heap st') (chainKey ?k) = ck"
    by (simp_all add: h deref_def nth_append)
  ultimately show ?thesis
    using r rs by (intro exI [of _ ?k]) simp
qed

theorem no_self_copy_without_user_witness:
  "(\<exists>k. fst call_without_user = Inr k \<and> getOwnKey (snd call_without_user) ''ch-1'' = Some k)
   \<and> length (receivedSenderKeys (snd call_without_user)) = 0"
proof -
  have run: "ensureSenderKeyDistributed mock_generateSenderKey None True ''ch-1'' fresh =
      (fst call_without_user, snd call_without_user)"
    by (simp add: call_without_user_def)
  have empty: "length (receivedSenderKeys fresh) = 0"
    by (simp add: fresh_def)
  from no_self_copy_without_user [where provider = mock_generateSenderKey and st = fresh
      and ck = fakeChainKey and delivered = True, OF fresh_facts(1) fresh_facts(2) run]
  show ?thesis
    using empty by auto
qed

text \<open>
  C5. When a call of \<^verbatim>\<open>ensureSenderKeyDistributed(c)\<close> has returned a key and its
  distribution succeeded, the next call for the same channel, with no
  \<^verbatim>\<open>invalidateSenderKey\<close> in between, returns that same key (so the same distribution
  id) and leaves the whole session as it was: no second key is generated and no self-copy
  is added, whoever the local user then is and whatever the network would do.
\<close>

theorem second_call_returns_same_key:
  assumes "ensureSenderKeyDistributed provider user True c st = (Inr k, st1)"
  shows "ensureSenderKeyDistributed provider user' delivered' c st1 = (Inr k, st1)"
proof (cases "getOwnKey st c")
  case (Some k0)
  with assms have "k = k0" "st1 = st \<or> st1 = distribute True c st"
    by (auto simp: ensureSenderKeyDistributed_def split: if_splits)
  with Some assms have "getOwnKey st1 c = Some k" "c \<in> set (distributedChannels st1)"
    by (auto simp: ensureSenderKeyDistributed_def split: if_splits)
  then show ?thesis
    by (simp add: ensureSenderKeyDistributed_def)
next
  case None
  show ?thesis
  proof (cases "generateSenderKey provider st")
    case gNone: None
    with None assms show ?thesis
      by (simp add: ensureSenderKeyDistributed_def)
  next
    case (Some p)
    obtain k0 stg where p: "p = (k0, stg)" by (cases p)
    define st3 where "st3 = (case user of
        None \<Rightarrow> setOwnKey c k0 stg
      | Some u \<Rightarrow> (let (cl, st') = cloneSenderKey k0 (setOwnKey c k0 stg)
                   in addReceivedKey c (distributionId k0) u cl st'))"
    from None Some p assms have r: "k = k0" "st1 = distribute True c st3"
      by (simp_all add: ensureSenderKeyDistributed_def Let_def st3_def)
    have "mySenderKeys st3 = AList.update c k0 (mySenderKeys stg)"
      by (simp add: st3_def setOwnKey_def cloneSenderKey_eq addReceivedKey_def Let_def
          split: option.splits)
    then have "getOwnKey st3 c = Some k0"
      by (simp add: getOwnKey_def update_conv')
    with r have "getOwnKey st1 c = Some k" "c \<in> set (distributedChannels st1)"
      by simp_all
    then show ?thesis
      by (simp add: ensureSenderKeyDistributed_def)
  qed
qed

theorem second_call_returns_same_key_witness:
  "(\<exists>k. fst first_call = Inr k \<and> fst second_call = Inr k)
   \<and> snd second_call = snd first_call
   \<and> length (selfCopies ''ch-1'' ''user-1'' (snd second_call)) = 1"
proof -
  let ?k = "\<lparr>distributionId = 0, chainKey = Suc 0, chainIndex = 0\<rparr>"
  let ?e = "\<lparr>fromUserId = ''user-1'',
             key = \<lparr>distributionId = 4, chainKey = 5, chainIndex = 0\<rparr>\<rparr>"
  let ?st = "fresh\<lparr>heap := heap fresh @ [fakeDistId[0 := 1], fakeChainKey, fakeDistId[0 := 1],
                 fakeChainKey, fakeDistId[0 := 1], fakeChainKey],
               callCount := Suc (callCount fresh),
               mySenderKeys := AList.update ''ch-1'' ?k (mySenderKeys fresh),
               receivedSenderKeys := receivedSenderKeys fresh @
                 [((''ch-1'', fakeDistId[0 := 1]), ?e)]\<rparr>"
  have "ensureSenderKeyDistributed mock_generateSenderKey (Some ''user-1'') True ''ch-1'' fresh =
      (Inr \<lparr>distributionId = length (heap fresh), chainKey = Suc (length (heap fresh)),
            chainIndex = 0\<rparr>,
       distribute True ''ch-1''
        (fresh\<lparr>heap := heap fresh @ [fakeDistId[0 := 1], fakeChainKey, fakeDistId[0 := 1],
                 fakeChainKey, fakeDistId[0 := 1], fakeChainKey],
               callCount := Suc (callCount fresh),
               mySenderKeys := AList.update ''ch-1''
                 \<lparr>distributionId = length (heap fresh), chainKey = Suc (length (heap fresh)),
                  chainIndex = 0\<rparr> (mySenderKeys fresh),
               receivedSenderKeys := receivedSenderKeys fresh @
                 [((''ch-1'', fakeDistId[0 := 1]),
                   \<lparr>fromUserId = ''user-1'',
                    key = \<lparr>distributionId = length (heap fresh) + 4,
                           chainKey = length (heap fresh) + 5, chainIndex = 0\<rparr>\<rparr>)]\<rparr>))"
    using fresh_facts(1) fresh_facts(2) fresh_facts(4) by (rule ensure_generates_with_user)
  then have first: "first_call = (Inr ?k, distribute True ''ch-1'' ?st)"
    by (simp add: first_call_def fresh_def)
  then have run: "ensureSenderKeyDistributed mock_generateSenderKey (Some ''user-1'') True ''ch-1''
      fresh = (Inr ?k, snd first_call)"
    by (simp add: first_call_def)
  have second: "second_call = (Inr ?k, snd first_call)"
    unfolding second_call_def
    by (rule second_call_returns_same_key [OF run])
  have "receivedSenderKeys (snd first_call) =
      receivedSenderKeys fresh @ [((''ch-1'', fakeDistId[0 := 1]), ?e)]"
    by (simp add: first)
  then have "length (selfCopies ''ch-1'' ''user-1'' (snd first_call)) =
      Suc (length (selfCopies ''ch-1'' ''user-1'' fresh))"
    by (rule selfCopies_append)
  then show ?thesis
    by (simp add: first second fresh_facts(5))
qed

text \<open>
  C4. A call that generates the key of channel \<open>c\<close> for the known user \<open>u\<close>, then
  \<^verbatim>\<open>invalidateSenderKey(c)\<close>, then a second call, the provider yielding two different
  distribution ids, both new to the channel: invalidation removes the own key and
  deletes no received key; the second own key has the second distribution id, which
  differs from the first; the self-copy made for the first key is still stored,
  unchanged, next to the one made for the second; and the user's self-copies on the
  channel are two more than before the first call (two in a session that had none).
\<close>

theorem regenerate_after_invalidate:
  assumes "getOwnKey st0 c = None"
    and "provider (callCount st0) = Some (d1, ck1)"
    and "provider (Suc (callCount st0)) = Some (d2, ck2)"
    and "d1 \<noteq> d2"
    and "map_of (receivedSenderKeys st0) (c, d1) = None"
    and "map_of (receivedSenderKeys st0) (c, d2) = None"
    and "ensureSenderKeyDistributed provider (Some u) delivered1 c st0 = (r1, st1)"
    and "ensureSenderKeyDistributed provider (Some u) delivered2 c (invalidateSenderKey c st1)
           = (r2, st2)"
  shows "\<exists>k1 k2. r1 = Inr k1 \<and> r2 = Inr k2
     \<and> getOwnKey st1 c = Some k1 \<and> getOwnKey (invalidateSenderKey c st1) c = None
     \<and> getOwnKey st2 c = Some k2
     \<and> deref (heap st1) (distributionId k1) = d1 \<and> deref (heap st2) (distributionId k2) = d2
     \<and> deref (heap st2) (distributionId k2) \<noteq> deref (heap st1) (distributionId k1)
     \<and> receivedSenderKeys (invalidateSenderKey c st1) = receivedSenderKeys st1
     \<and> map_of (receivedSenderKeys st1) (c, d1) \<noteq> None
     \<and> map_of (receivedSenderKeys st2) (c, d1) = map_of (receivedSenderKeys st1) (c, d1)
     \<and> map_of (receivedSenderKeys st2) (c, d2) \<noteq> None
     \<and> length (selfCopies c u st1) = length (selfCopies c u st0) + 1
     \<and> length (selfCopies c u st2) = length (selfCopies c u st0) + 2"
proof -
  let ?k1 = "\<lparr>distributionId = length (heap st0), chainKey = Suc (length (heap st0)), chainIndex = 0\<rparr>"
  let ?e1 = "\<lparr>fromUserId = u,
             key = \<lparr>distributionId = length (heap st0) + 4, chainKey = length (heap st0) + 5,
                    chainIndex = 0\<rparr>\<rparr>"
  let ?i = "invalidateSenderKey c st1"
  let ?k2 = "\<lparr>distributionId = length (heap ?i), chainKey = Suc (length (heap ?i)), chainIndex = 0\<rparr>"
  let ?e2 = "\<lparr>fromUserId = u,
             key = \<lparr>distributionId = length (heap ?i) + 4, chainKey = length (heap ?i) + 5,
                    chainIndex = 0\<rparr>\<rparr>"
  have "ensureSenderKeyDistributed provider (Some u) delivered1 c st0 =
      (Inr ?k1, distribute delivered1 c
        (st0\<lparr>heap := heap st0 @ [d1, ck1, d1, ck1, d1, ck1], callCount := Suc (callCount st0),
            mySenderKeys := AList.update c ?k1 (mySenderKeys st0),
            receivedSenderKeys := receivedSenderKeys st0 @ [((c, d1), ?e1)]\<rparr>))"
    using assms(1,2,5) by (rule ensure_generates_with_user)
  with assms(7) have r1: "r1 = Inr ?k1"
    and h1: "heap st1 = heap st0 @ [d1, ck1, d1, ck1, d1, ck1]"
    and own1: "mySenderKeys st1 = AList.update c ?k1 (mySenderKeys st0)"
    and rs1: "receivedSenderKeys st1 = receivedSenderKeys st0 @ [((c, d1), ?e1)]"
    and cc1: "callCount st1 = Suc (callCount st0)"
    by auto
  have i1: "getOwnKey ?i c = None" by simp
  have i2: "provider (callCount ?i) = Some (d2, ck2)"
    using assms(3) by (simp add: cc1)
  have i3: "map_of (receivedSenderKeys ?i) (c, d2) = None"
    using assms(4,6) by (simp add: rs1 map_add_def)
  have "ensureSenderKeyDistributed provider (Some u) delivered2 c ?i =
      (Inr ?k2, distribute delivered2 c
        (?i\<lparr>heap := heap ?i @ [d2, ck2, d2, ck2, d2, ck2], callCount := Suc (callCount ?i),
            mySenderKeys := AList.update c ?k2 (mySenderKeys ?i),
            receivedSenderKeys := receivedSenderKeys ?i @ [((c, d2), ?e2)]\<rparr>))"
    using i1 i2 i3 by (rule ensure_generates_with_user)
  with assms(8) have r2: "r2 = Inr ?k2"
    and h2: "heap st2 = heap ?i @ [d2, ck2, d2, ck2, d2, ck2]"
    and own2: "mySenderKeys st2 = AList.update c ?k2 (mySenderKeys ?i)"
    and rs2: "receivedSenderKeys st2 = receivedSenderKeys st1 @ [((c, d2), ?e2)]"
    by auto
  have a: "getOwnKey st1 c = Some ?k1" "getOwnKey st2 c = Some ?k2"
    by (simp_all add: getOwnKey_def own1 own2 update_conv')
  have b: "deref (heap st1) (distributionId ?k1) = d1"
    by (simp add: h1 deref_def nth_append)
  have c: "deref (heap st2) (distributionId ?k2) = d2"
    by (simp add: h2 deref_def nth_append)
  have d: "map_of (receivedSenderKeys st1) (c, d1) = Some ?e1"
    unfolding rs1 using assms(5) by (rule map_of_append_fresh)
  have e: "map_of (receivedSenderKeys st2) (c, d1) = map_of (receivedSenderKeys st1) (c, d1)"
    unfolding rs2 by (rule map_of_append_other) (use assms(4) in simp)
  have f: "map_of (receivedSenderKeys st2) (c, d2) = Some ?e2"
    unfolding rs2 by (rule map_of_append_fresh) (use i3 in simp)
  have g: "length (selfCopies c u st1) = length (selfCopies c u st0) + 1"
    using selfCopies_append [OF rs1] by simp
  have h: "length (selfCopies c u st2) = length (selfCopies c u st0) + 2"
    using selfCopies_append [OF rs2] g by simp
  show ?thesis
    using r1 r2 a i1 b c d e f g h assms(4)
    by (intro exI [of _ ?k1] exI [of _ ?k2]) simp
qed

theorem regenerate_after_invalidate_witness:
  "(\<exists>k1 k2. fst first_call = Inr k1 \<and> fst call_after_invalidate = Inr k2
      \<and> deref (heap (snd first_call)) (distributionId k1) = fakeDistId[0 := 1]
      \<and> deref (heap (snd call_after_invalidate)) (distributionId k2) = fakeDistId[0 := 2]
      \<and> deref (heap (snd call_after_invalidate)) (distributionId k2) \<noteq>
          deref (heap (snd first_call)) (distributionId k1))
   \<and> map_of (receivedSenderKeys (snd call_after_invalidate)) (''ch-1'', fakeDistId[0 := 1]) =
       map_of (receivedSenderKeys (snd first_call)) (''ch-1'', fakeDistId[0 := 1])
   \<and> map_of (receivedSenderKeys (snd first_call)) (''ch-1'', fakeDistId[0 := 1]) \<noteq> None
   \<and> length (selfCopies ''ch-1'' ''user-1'' (snd call_after_invalidate)) = 2"
proof -
  have run1: "ensureSenderKeyDistributed mock_generateSenderKey (Some ''user-1'') True ''ch-1''
      fresh = (fst first_call, snd first_call)"
    by (simp add: first_call_def)
  have run2: "ensureSenderKeyDistributed mock_generateSenderKey (Some ''user-1'') True ''ch-1''
      (invalidateSenderKey ''ch-1'' (snd first_call)) =
      (fst call_after_invalidate, snd call_after_invalidate)"
    by (simp add: call_after_invalidate_def)
  from regenerate_after_invalidate [of fresh "''ch-1''" mock_generateSenderKey
      "fakeDistId[0 := 1]" fakeChainKey "fakeDistId[0 := 2]" fakeChainKey "''user-1''" True
      "fst first_call" "snd first_call" True "fst call_after_invalidate"
      "snd call_after_invalidate",
      OF fresh_facts(1) fresh_facts(2) fresh_facts(3) fresh_facts(6) fresh_facts(4)
        fresh_facts(4) run1 run2]
  show ?thesis
    by (auto simp: fresh_facts(5))
qed

end
